theory Spec2Isabelle
  imports Main
begin

section \<open>Tool confirmation buttons (renderer/messages/MessageToolGroup.tsx)\<close>

text \<open>
  The members of the enum \<open>ToolConfirmationOutcome\<close> that the renderer refers to.
\<close>

datatype ToolConfirmationOutcome =
  ProceedOnce | ProceedAlways | ProceedAlwaysTool | ProceedAlwaysServer | Cancel

text \<open>
  The tagged union \<open>confirmationDetails\<close>, with the fields the renderer reads in each
  variant. The tag \<open>type\<close> of the source is the constructor.
\<close>

datatype confirmationDetails =
    EditDetails (title: string) (fileName: string) (fileDiff: string)
  | ExecDetails (title: string) (command: string)
  | InfoDetails (title: string) (prompt: string)
  | McpDetails (title: string) (toolName: string) (serverName: string) (toolDisplayName: string)

datatype details_type = edit | exec | info | mcp

fun details_type_of :: "confirmationDetails \<Rightarrow> details_type" where
  "details_type_of (EditDetails _ _ _) = edit"
| "details_type_of (ExecDetails _ _) = exec"
| "details_type_of (InfoDetails _ _) = info"
| "details_type_of (McpDetails _ _ _ _) = mcp"

text \<open>The translation function \<open>t(key, options)\<close> of react-i18next is a parameter.\<close>

type_synonym translate = "string \<Rightarrow> (string \<times> string) list \<Rightarrow> string"

record button_option =
  label :: string
  outcome :: ToolConfirmationOutcome

record confirmation_buttons =
  question :: string
  options :: "button_option list"

text \<open>
  \<open>useConfirmationButtons\<close>: no details give the empty object (\<open>None\<close>); otherwise the
  switch on the tag, whose default branch is the mcp variant.
\<close>

fun buttons_for :: "translate \<Rightarrow> confirmationDetails \<Rightarrow> confirmation_buttons" where
  "buttons_for t (EditDetails _ _ _) =
     \<lparr>question = t ''messages.confirmation.applyChange'' [],
      options =
        [\<lparr>label = t ''messages.confirmation.yesAllowOnce'' [], outcome = ProceedOnce\<rparr>,
         \<lparr>label = t ''messages.confirmation.yesAllowAlways'' [], outcome = ProceedAlways\<rparr>,
         \<lparr>label = t ''messages.confirmation.no'' [], outcome = Cancel\<rparr>]\<rparr>"
| "buttons_for t (ExecDetails _ _) =
     \<lparr>question = t ''messages.confirmation.allowExecution'' [],
      options =
        [\<lparr>label = t ''messages.confirmation.yesAllowOnce'' [], outcome = ProceedOnce\<rparr>,
         \<lparr>label = t ''messages.confirmation.yesAllowAlways'' [], outcome = ProceedAlways\<rparr>,
         \<lparr>label = t ''messages.confirmation.no'' [], outcome = Cancel\<rparr>]\<rparr>"
| "buttons_for t (InfoDetails _ _) =
     \<lparr>question = t ''messages.confirmation.proceed'' [],
      options =
        [\<lparr>label = t ''messages.confirmation.yesAllowOnce'' [], outcome = ProceedOnce\<rparr>,
         \<lparr>label = t ''messages.confirmation.yesAllowAlways'' [], outcome = ProceedAlways\<rparr>,
         \<lparr>label = t ''messages.confirmation.no'' [], outcome = Cancel\<rparr>]\<rparr>"
| "buttons_for t (McpDetails _ tool server _) =
     \<lparr>question = t ''messages.confirmation.allowMCPTool''
        [(''toolName'', tool), (''serverName'', server)],
      options =
        [\<lparr>label = t ''messages.confirmation.yesAllowOnce'' [], outcome = ProceedOnce\<rparr>,
         \<lparr>label = t ''messages.confirmation.yesAlwaysAllowTool''
            [(''toolName'', tool), (''serverName'', server)], outcome = ProceedAlwaysTool\<rparr>,
         \<lparr>label = t ''messages.confirmation.yesAlwaysAllowServer''
            [(''serverName'', server)], outcome = ProceedAlwaysServer\<rparr>,
         \<lparr>label = t ''messages.confirmation.no'' [], outcome = Cancel\<rparr>]\<rparr>"

definition useConfirmationButtons ::
  "confirmationDetails option \<Rightarrow> translate \<Rightarrow> confirmation_buttons option" where
  "useConfirmationButtons details t = map_option (buttons_for t) details"

text \<open>The values of the options the hook returns, in order; the empty object has none.\<close>

definition option_values :: "confirmation_buttons option \<Rightarrow> ToolConfirmationOutcome list option" where
  "option_values r = map_option (\<lambda>b. map outcome (options b)) r"

section \<open>Conversation tool configuration (agent/gemini/cli/tools/conversation-tool-config.ts)\<close>

text \<open>The search engine preference: the union \<open>'google' | 'default'\<close>.\<close>

datatype webSearchEngine_pref = engine_google | engine_default

text \<open>
  \<open>AuthType\<close> is an enum of the library aioncli-core; the members this class names are
  \<open>USE_OPENAI\<close> and \<open>LOGIN_WITH_GOOGLE\<close>, every other member is \<open>OtherAuthType\<close>.
\<close>

datatype AuthType = USE_OPENAI | LOGIN_WITH_GOOGLE | OtherAuthType string

record TProviderWithModel =
  provider_id :: string
  provider_name :: string
  provider_platform :: string
  baseUrl :: string
  apiKey :: string
  useModel :: string

text \<open>The minimal \<open>Config\<close> built for the web search, by the fields the class sets.\<close>

record dedicated_Config =
  sessionId :: string
  config_model :: string

record ConversationToolConfigOptions =
  proxy :: string
  opt_webSearchEngine :: "webSearchEngine_pref option"

text \<open>
  The private fields of the class. The dedicated client is a handle obtained from the
  dedicated configuration, so it is modelled by that configuration's session id.
\<close>

record ConversationToolConfig =
  useGeminiWebSearch :: bool
  useAionuiWebFetch :: bool
  geminiModel :: "TProviderWithModel option"
  excludeTools :: "string list"
  dedicatedGeminiClient :: "string option"
  dedicatedConfig :: "dedicated_Config option"
  webSearchEngine :: webSearchEngine_pref

text \<open>The field initialisers and the constructor (\<open>options.webSearchEngine ?? 'default'\<close>).\<close>

definition new_ConversationToolConfig :: "ConversationToolConfigOptions \<Rightarrow> ConversationToolConfig" where
  "new_ConversationToolConfig opts =
     \<lparr>useGeminiWebSearch = False,
      useAionuiWebFetch = False,
      geminiModel = None,
      excludeTools = [],
      dedicatedGeminiClient = None,
      dedicatedConfig = None,
      webSearchEngine = (case opt_webSearchEngine opts of None \<Rightarrow> engine_default | Some e \<Rightarrow> e)\<rparr>"

text \<open>\<open>initializeForConversation\<close>: \<open>push\<close> appends to the list.\<close>

definition initializeForConversation :: "AuthType \<Rightarrow> ConversationToolConfig \<Rightarrow> ConversationToolConfig" where
  "initializeForConversation authType c =
     (let c1 = c\<lparr>useAionuiWebFetch := True\<rparr>;
          c2 = c1\<lparr>excludeTools := excludeTools c1 @ [''web_fetch'']\<rparr>
      in if webSearchEngine c2 = engine_google \<and> authType = USE_OPENAI
         then (let c3 = c2\<lparr>useGeminiWebSearch := True\<rparr>
               in c3\<lparr>excludeTools := excludeTools c3 @ [''google_web_search'']\<rparr>)
         else c2)"

text \<open>The object \<open>getConfig\<close> returns.\<close>

record tool_config =
  cfg_useGeminiWebSearch :: bool
  cfg_useAionuiWebFetch :: bool
  cfg_geminiModel :: "TProviderWithModel option"
  cfg_excludeTools :: "string list"

definition getConfig :: "ConversationToolConfig \<Rightarrow> tool_config" where
  "getConfig c =
     \<lparr>cfg_useGeminiWebSearch = useGeminiWebSearch c,
      cfg_useAionuiWebFetch = useAionuiWebFetch c,
      cfg_geminiModel = geminiModel c,
      cfg_excludeTools = excludeTools c\<rparr>"

text \<open>
  What \<open>registerCustomTools\<close> takes from outside: the value of \<open>uuid()\<close>, the value of
  \<open>Date.now()\<close> as text, and whether \<open>initialize\<close> and \<open>refreshAuth\<close> of the dedicated
  configuration return (a throw is caught by the method).
\<close>

record register_env =
  uuid :: string
  now :: string
  auth_succeeds :: bool

definition findBestGeminiModel :: "register_env \<Rightarrow> ConversationToolConfig \<Rightarrow> TProviderWithModel option" where
  "findBestGeminiModel env c =
     (if webSearchEngine c = engine_google
      then Some \<lparr>provider_id = uuid env,
                 provider_name = ''Gemini Google Auth'',
                 provider_platform = ''gemini-with-google-auth'',
                 baseUrl = '''',
                 apiKey = '''',
                 useModel = ''gemini-2.5-flash''\<rparr>
      else None)"

definition createDedicatedGeminiConfig :: "register_env \<Rightarrow> TProviderWithModel \<Rightarrow> dedicated_Config" where
  "createDedicatedGeminiConfig env m =
     \<lparr>sessionId = ''gemini-websearch-'' @ now env, config_model = useModel m\<rparr>"

datatype custom_tool = WebFetchTool | WebSearchTool

text \<open>
  \<open>registerCustomTools\<close>: the new state of the class and the tools registered, in order.
  The assignments to \<open>geminiModel\<close> and \<open>dedicatedConfig\<close> come before the awaited
  authentication, the one to \<open>dedicatedGeminiClient\<close> after it.
\<close>

definition registerCustomTools ::
  "register_env \<Rightarrow> ConversationToolConfig \<Rightarrow> ConversationToolConfig \<times> custom_tool list" where
  "registerCustomTools env c =
     (let fetch = (if useAionuiWebFetch c then [WebFetchTool] else [])
      in if useGeminiWebSearch c
         then
           (case dedicatedConfig c of
              None \<Rightarrow>
                (case findBestGeminiModel env c of
                   None \<Rightarrow> (c, fetch)
                 | Some m \<Rightarrow>
                     (let c1 = c\<lparr>geminiModel := Some m\<rparr>;
                          c2 = c1\<lparr>dedicatedConfig := Some (createDedicatedGeminiConfig env m)\<rparr>
                      in if auth_succeeds env
                         then (c2\<lparr>dedicatedGeminiClient :=
                                    Some (sessionId (createDedicatedGeminiConfig env m))\<rparr>,
                               fetch @ [WebSearchTool])
                         else (c2, fetch)))
            | Some dc \<Rightarrow>
                (if dedicatedGeminiClient c \<noteq> None then (c, fetch @ [WebSearchTool])
                 else (c, fetch)))
         else (c, fetch))"

text \<open>
  What can happen to a conversation after its bootstrap: the global preference of the
  settings store is edited, \<open>getConfig\<close> is called, \<open>registerCustomTools\<close> is called. The
  global preference is a value beside the class, which no method of the class reads.
\<close>

record config_world =
  global_webSearchEngine :: webSearchEngine_pref
  conv_config :: ConversationToolConfig

datatype later_op =
    SetGlobalPreference webSearchEngine_pref
  | GetConfig
  | RegisterCustomTools register_env

text \<open>The results of the \<open>getConfig\<close> calls among the operations, in order.\<close>

fun later_getConfig_results :: "later_op list \<Rightarrow> config_world \<Rightarrow> tool_config list" where
  "later_getConfig_results [] w = []"
| "later_getConfig_results (SetGlobalPreference e # ops) w =
     later_getConfig_results ops (w\<lparr>global_webSearchEngine := e\<rparr>)"
| "later_getConfig_results (GetConfig # ops) w =
     getConfig (conv_config w) # later_getConfig_results ops w"
| "later_getConfig_results (RegisterCustomTools env # ops) w =
     later_getConfig_results ops (w\<lparr>conv_config := fst (registerCustomTools env (conv_config w))\<rparr>)"

text \<open>The part of a \<open>getConfig\<close> result the invariant speaks of.\<close>

definition exclusions_and_flags :: "tool_config \<Rightarrow> string list \<times> bool \<times> bool" where
  "exclusions_and_flags r = (cfg_excludeTools r, cfg_useAionuiWebFetch r, cfg_useGeminiWebSearch r)"

text \<open>The bootstrap of a conversation: the class is built and initialised once.\<close>

definition bootstrap_config :: "ConversationToolConfigOptions \<Rightarrow> AuthType \<Rightarrow> ConversationToolConfig" where
  "bootstrap_config opts authType = initializeForConversation authType (new_ConversationToolConfig opts)"

section \<open>MCP server projection (process/task/GeminiAgentManager.ts, common/storage.ts)\<close>

text \<open>
  The transports of \<open>IMcpServerTransport\<close>: the tag \<open>type\<close> is the constructor. The stdio
  transport has a command, optional arguments and an optional environment; the other
  three have a url and optional headers.
\<close>

datatype IMcpServerTransport =
    stdio string "string list option" "(string \<times> string) list option"
  | sse string "(string \<times> string) list option"
  | http string "(string \<times> string) list option"
  | streamable_http string "(string \<times> string) list option"

datatype mcp_connection_status = connected | disconnected | connection_error | testing

record IMcpTool =
  tool_name :: string
  tool_description :: "string option"

record IMcpServer =
  server_id :: string
  server_name :: string
  description :: "string option"
  enabled :: bool
  transport :: IMcpServerTransport
  tools :: "IMcpTool list option"
  status :: "mcp_connection_status option"
  lastConnected :: "nat option"
  createdAt :: nat
  updatedAt :: nat
  originalJson :: string

record UiMcpServerConfig =
  ui_command :: string
  ui_args :: "string list"
  ui_env :: "(string \<times> string) list"
  ui_description :: "string option"

text \<open>
  What \<open>ProcessConfig.get('mcp.config')\<close> can give: it throws, it gives a value that is
  missing or no array, or it gives the stored list.
\<close>

datatype mcp_config_read = ReadThrows | NotAnArray | ServerArray "IMcpServer list"

text \<open>
  The object \<open>mcpConfig\<close> starts as \<open>{}\<close> and is modelled by the finite map of its own
  properties. An assignment \<open>mcpConfig[name] = value\<close> creates or replaces the own property
  \<open>name\<close>, except for the name \<open>__proto__\<close>: on a plain object that assignment runs the
  setter inherited from \<open>Object.prototype\<close>, which replaces the prototype and creates no
  own property.
\<close>

definition proto_key :: string where
  "proto_key = ''__proto__''"

definition assign_property ::
  "(string \<rightharpoonup> 'v) \<Rightarrow> string \<Rightarrow> 'v \<Rightarrow> (string \<rightharpoonup> 'v)" where
  "assign_property obj name v = (if name = proto_key then obj else obj(name \<mapsto> v))"

text \<open>
  The body of the \<open>forEach\<close>: an assignment \<open>mcpConfig[server.name] = {...}\<close> for a stdio
  transport, nothing otherwise; \<open>args || []\<close> and \<open>env || {}\<close> replace a missing value.
\<close>

definition add_server ::
  "IMcpServer \<Rightarrow> (string \<rightharpoonup> UiMcpServerConfig) \<Rightarrow> (string \<rightharpoonup> UiMcpServerConfig)" where
  "add_server server mcpConfig =
     (case transport server of
        stdio cmd args env \<Rightarrow>
          assign_property mcpConfig (server_name server)
            \<lparr>ui_command = cmd,
             ui_args = (case args of None \<Rightarrow> [] | Some a \<Rightarrow> a),
             ui_env = (case env of None \<Rightarrow> [] | Some e \<Rightarrow> e),
             ui_description = description server\<rparr>
      | _ \<Rightarrow> mcpConfig)"

definition getMcpServers :: "mcp_config_read \<Rightarrow> (string \<rightharpoonup> UiMcpServerConfig)" where
  "getMcpServers r =
     (case r of
        ReadThrows \<Rightarrow> Map.empty
      | NotAnArray \<Rightarrow> Map.empty
      | ServerArray mcpServers \<Rightarrow>
          fold add_server
            (filter (\<lambda>server. enabled server \<and> status server = Some connected) mcpServers)
            Map.empty)"

text \<open>
  The words of the specification: a server is projected when it is enabled, connected
  and launched locally (stdio), and its entry holds the command, the arguments, the
  environment and the description.
\<close>

fun is_stdio :: "IMcpServerTransport \<Rightarrow> bool" where
  "is_stdio (stdio _ _ _) = True"
| "is_stdio _ = False"

definition projectable :: "IMcpServer \<Rightarrow> bool" where
  "projectable s = (enabled s \<and> status s = Some connected \<and> is_stdio (transport s))"

fun launch_config :: "IMcpServer \<Rightarrow> UiMcpServerConfig" where
  "launch_config s =
     (case transport s of
        stdio cmd args env \<Rightarrow>
          \<lparr>ui_command = cmd, ui_args = case_option [] (\<lambda>a. a) args,
           ui_env = case_option [] (\<lambda>e. e) env, ui_description = description s\<rparr>
      | _ \<Rightarrow> \<lparr>ui_command = [], ui_args = [], ui_env = [], ui_description = None\<rparr>)"

text \<open>The last element of a list that satisfies a predicate.\<close>

fun last_where :: "('a \<Rightarrow> bool) \<Rightarrow> 'a list \<Rightarrow> 'a option" where
  "last_where P [] = None"
| "last_where P (x # xs) =
     (case last_where P xs of Some y \<Rightarrow> Some y | None \<Rightarrow> if P x then Some x else None)"

text \<open>The three servers of the specification's example, all connected.\<close>

definition example_server :: "string \<Rightarrow> bool \<Rightarrow> IMcpServerTransport \<Rightarrow> IMcpServer" where
  "example_server n e t =
     \<lparr>server_id = n, server_name = n, description = None, enabled = e, transport = t,
      tools = None, status = Some connected, lastConnected = None, createdAt = 0,
      updatedAt = 0, originalJson = ''{}''\<rparr>"

definition three_servers :: "IMcpServer list" where
  "three_servers =
     [example_server ''local'' True (stdio ''npx'' (Some [''-y'', ''srv'']) None),
      example_server ''remote'' True (http ''https://example.test/mcp'' None),
      example_server ''off'' False (stdio ''npx'' None None)]"

text \<open>Two enabled, connected stdio servers of the same name, with different commands.\<close>

definition first_of_name :: IMcpServer where
  "first_of_name = example_server ''tools'' True (stdio ''first-command'' None None)"

definition second_of_name :: IMcpServer where
  "second_of_name = example_server ''tools'' True (stdio ''second-command'' None None)"

definition same_name_servers :: "IMcpServer list" where
  "same_name_servers = [first_of_name, second_of_name]"

section \<open>The Gemini agent manager (process/task/GeminiAgentManager.ts)\<close>

text \<open>
  The status of a conversation is \<open>'pending' | 'running' | 'finished' | undefined\<close>
  (common/storage.ts); \<open>undefined\<close> is \<open>None\<close>.
\<close>

datatype conversation_status = pending | running | finished

record manager =
  conversation_id :: string
  mgr_status :: "conversation_status option"

text \<open>A stored message, by the fields \<open>sendMessage\<close> fills in.\<close>

record TMessage =
  message_id :: string
  message_type :: string
  position :: string
  message_conversation_id :: string
  message_content :: string

text \<open>
  An event of the stream \<open>gemini.message\<close>. The event \<open>sendMessage\<close> emits has no
  \<open>conversation_id\<close>, so the field is optional.
\<close>

record IResponseMessage =
  event_type :: string
  event_data :: string
  event_msg_id :: string
  event_conversation_id :: "string option"

text \<open>
  The value a rejected bootstrap carries: its \<open>message\<close>, when it has one, and its
  \<open>JSON.stringify\<close> text.
\<close>

record bootstrap_error =
  error_message :: "string option"
  error_json :: string

datatype bootstrap_outcome = Fulfilled | Rejected bootstrap_error

record send_data =
  input :: string
  msg_id :: string

text \<open>
  What the manager does, in program order. The collaborators are not among the sources,
  so each call to one is a step: \<open>addMessage\<close> and \<open>addOrUpdateMessage\<close> (the persistence
  of process/message), \<open>this.emit\<close>, \<open>super.sendMessage\<close> (which forwards the input to the
  subprocess) and \<open>responseStream.emit\<close> (the outbound bridge). \<open>AwaitBootstrap\<close> is the
  point where \<open>sendMessage\<close> awaits the bootstrap promise. \<open>NextTickToLocalFinish\<close> is the
  point where the callback given to \<open>nextTickToLocalFinish\<close> runs, which is after the
  local persistence has settled; \<open>Reject\<close> is the rejection of the returned promise.
\<close>

datatype step =
    AddMessage string TMessage
  | SetStatus conversation_status
  | AwaitBootstrap
  | Emit string IResponseMessage
  | NextTickToLocalFinish
  | Reject bootstrap_error
  | SuperSendMessage send_data
  | AddOrUpdateMessage string TMessage string
  | ResponseStreamEmit IResponseMessage

definition user_message :: "manager \<Rightarrow> send_data \<Rightarrow> TMessage" where
  "user_message m d =
     \<lparr>message_id = msg_id d,
      message_type = ''text'',
      position = ''right'',
      message_conversation_id = conversation_id m,
      message_content = input d\<rparr>"

text \<open>\<open>e.message || JSON.stringify(e)\<close>: a missing or empty message is falsy.\<close>

definition error_text :: "bootstrap_error \<Rightarrow> string" where
  "error_text e =
     (case error_message e of
        None \<Rightarrow> error_json e
      | Some msg \<Rightarrow> if msg = [] then error_json e else msg)"

definition error_event :: "bootstrap_error \<Rightarrow> send_data \<Rightarrow> IResponseMessage" where
  "error_event e d =
     \<lparr>event_type = ''error'',
      event_data = error_text e,
      event_msg_id = msg_id d,
      event_conversation_id = None\<rparr>"

text \<open>
  \<open>sendMessage\<close>: the steps of one call, given how the bootstrap promise settles. The
  \<open>catch\<close> handler emits the error event and returns a promise that rejects from the
  callback of \<open>nextTickToLocalFinish\<close>, so the \<open>then\<close> with \<open>super.sendMessage\<close> is skipped.
\<close>

definition sendMessage :: "manager \<Rightarrow> bootstrap_outcome \<Rightarrow> send_data \<Rightarrow> step list" where
  "sendMessage m bootstrap d =
     [AddMessage (conversation_id m) (user_message m d), SetStatus pending, AwaitBootstrap] @
     (case bootstrap of
        Rejected e \<Rightarrow> [Emit ''gemini.message'' (error_event e d), NextTickToLocalFinish, Reject e]
      | Fulfilled \<Rightarrow> [SuperSendMessage d])"

definition skipTransformTypes :: "string list" where
  "skipTransformTypes = [''thought'', ''finished'']"

text \<open>
  The listener that \<open>init\<close> registers on \<open>gemini.message\<close>. \<open>handlePreviewOpenEvent\<close>
  (process/utils/previewUtils) and \<open>transformMessage\<close> (common/chatLib) are not among the
  sources and are parameters: the first says whether it consumed the event, the second
  gives a message or null.
\<close>

definition on_gemini_message ::
  "(IResponseMessage \<Rightarrow> bool) \<Rightarrow> (IResponseMessage \<Rightarrow> TMessage option) \<Rightarrow>
   manager \<Rightarrow> IResponseMessage \<Rightarrow> step list" where
  "on_gemini_message handlePreviewOpenEvent transformMessage m ev =
     (if event_type ev = ''finish'' then [SetStatus finished] else []) @
     (if event_type ev = ''start'' then [SetStatus running] else []) @
     (if handlePreviewOpenEvent ev then []
      else
        (let ev' = ev\<lparr>event_conversation_id := Some (conversation_id m)\<rparr>
         in (if event_type ev' \<notin> set skipTransformTypes
             then (case transformMessage ev' of
                     None \<Rightarrow> []
                   | Some tMessage \<Rightarrow>
                       [AddOrUpdateMessage (conversation_id m) tMessage ''gemini''])
             else []) @
            [ResponseStreamEmit ev']))"

text \<open>The effect of the steps on the manager: only an assignment to the status changes it.\<close>

fun run_step :: "step \<Rightarrow> manager \<Rightarrow> manager" where
  "run_step (SetStatus s) m = m\<lparr>mgr_status := Some s\<rparr>"
| "run_step _ m = m"

definition run_steps :: "step list \<Rightarrow> manager \<Rightarrow> manager" where
  "run_steps steps m = fold run_step steps m"

fun is_persist :: "step \<Rightarrow> bool" where
  "is_persist (AddMessage _ _) = True"
| "is_persist (AddOrUpdateMessage _ _ _) = True"
| "is_persist _ = False"

fun is_emit :: "step \<Rightarrow> bool" where
  "is_emit (Emit _ _) = True"
| "is_emit _ = False"

fun is_reject :: "step \<Rightarrow> bool" where
  "is_reject (Reject _) = True"
| "is_reject _ = False"

fun is_forward :: "step \<Rightarrow> bool" where
  "is_forward (SuperSendMessage _) = True"
| "is_forward _ = False"

text \<open>The persistence steps among some steps, and the events given to the bridge.\<close>

definition persisted :: "step list \<Rightarrow> step list" where
  "persisted steps = filter is_persist steps"

fun forwarded :: "step list \<Rightarrow> IResponseMessage list" where
  "forwarded [] = []"
| "forwarded (ResponseStreamEmit e # steps) = e # forwarded steps"
| "forwarded (_ # steps) = forwarded steps"

text \<open>
  An event emitted on \<open>gemini.message\<close> is delivered, within the \<open>emit\<close>, to the listener
  registered by \<open>init\<close>: the steps of \<open>sendMessage\<close> with those of the listener in place.
\<close>

fun listener_steps ::
  "(IResponseMessage \<Rightarrow> bool) \<Rightarrow> (IResponseMessage \<Rightarrow> TMessage option) \<Rightarrow>
   manager \<Rightarrow> step \<Rightarrow> step list" where
  "listener_steps g t m (Emit name ev) =
     (if name = ''gemini.message'' then Emit name ev # on_gemini_message g t m ev
      else [Emit name ev])"
| "listener_steps g t m s = [s]"

definition sendMessage_with_listener ::
  "(IResponseMessage \<Rightarrow> bool) \<Rightarrow> (IResponseMessage \<Rightarrow> TMessage option) \<Rightarrow>
   manager \<Rightarrow> bootstrap_outcome \<Rightarrow> send_data \<Rightarrow> step list" where
  "sendMessage_with_listener g t m bootstrap d =
     concat (map (listener_steps g t m) (sendMessage m bootstrap d))"

text \<open>
  \<open>happens_before P Q xs\<close>: no step with \<open>Q\<close> stands at or before the first step with
  \<open>P\<close>, that is, every \<open>Q\<close> step has a \<open>P\<close> step strictly before it.
\<close>

definition happens_before :: "('a \<Rightarrow> bool) \<Rightarrow> ('a \<Rightarrow> bool) \<Rightarrow> 'a list \<Rightarrow> bool" where
  "happens_before P Q xs =
     list_all (\<lambda>x. \<not> Q x)
       (takeWhile (\<lambda>x. \<not> P x) xs @ take 1 (dropWhile (\<lambda>x. \<not> P x) xs))"

text \<open>The event as the listener passes it on: \<open>data.conversation_id = this.conversation_id\<close>.\<close>

definition stamped :: "manager \<Rightarrow> IResponseMessage \<Rightarrow> IResponseMessage" where
  "stamped m ev = ev\<lparr>event_conversation_id := Some (conversation_id m)\<rparr>"

text \<open>A transform that copies the conversation id of the event into its message.\<close>

definition copies_conversation_id :: "(IResponseMessage \<Rightarrow> TMessage option) \<Rightarrow> bool" where
  "copies_conversation_id t =
     (\<forall>ev tm. t ev = Some tm \<longrightarrow> event_conversation_id ev = Some (message_conversation_id tm))"

text \<open>The words of the specification: the transitions of the status machine.\<close>

fun spec_transition :: "conversation_status option \<Rightarrow> conversation_status option \<Rightarrow> bool" where
  "spec_transition None (Some pending) = True"
| "spec_transition (Some pending) (Some running) = True"
| "spec_transition (Some running) (Some finished) = True"
| "spec_transition _ _ = False"

text \<open>
  Instances of the two collaborators and sample inputs, for the examples: a preview
  handler that consumes nothing, one that consumes the events of type \<open>preview_open\<close>,
  and a transform that turns every event into a text message.
\<close>

definition never_preview :: "IResponseMessage \<Rightarrow> bool" where
  "never_preview ev = False"

definition preview_open_only :: "IResponseMessage \<Rightarrow> bool" where
  "preview_open_only ev = (event_type ev = ''preview_open'')"

definition text_transform :: "IResponseMessage \<Rightarrow> TMessage option" where
  "text_transform ev =
     Some \<lparr>message_id = event_msg_id ev,
           message_type = ''text'',
           position = ''left'',
           message_conversation_id = (case event_conversation_id ev of None \<Rightarrow> [] | Some c \<Rightarrow> c),
           message_content = event_data ev\<rparr>"

definition example_manager :: manager where
  "example_manager = \<lparr>conversation_id = ''conv-1'', mgr_status = Some pending\<rparr>"

definition example_event :: "string \<Rightarrow> IResponseMessage" where
  "example_event ty =
     \<lparr>event_type = ty, event_data = ''payload'', event_msg_id = ''m1'',
      event_conversation_id = Some ''conv-other''\<rparr>"

definition example_error :: bootstrap_error where
  "example_error = \<lparr>error_message = Some ''login required'', error_json = ''{}''\<rparr>"

definition example_send :: send_data where
  "example_send = \<lparr>input = ''hello'', msg_id = ''m1''\<rparr>"

section \<open>Model capabilities (capability resolution with its cache)\<close>

text \<open>
  \<open>ModelType\<close>, \<open>ModelCapability\<close> and \<open>IProvider\<close> of common/storage.ts. Strings are lists
  of 8-bit characters.
\<close>

datatype ModelType =
    type_text | type_vision | type_function_calling | type_web_search
  | type_reasoning | type_embedding | type_rerank | type_excludeFromPrimary

fun type_name :: "ModelType \<Rightarrow> string" where
  "type_name type_text = ''text''"
| "type_name type_vision = ''vision''"
| "type_name type_function_calling = ''function_calling''"
| "type_name type_web_search = ''web_search''"
| "type_name type_reasoning = ''reasoning''"
| "type_name type_embedding = ''embedding''"
| "type_name type_rerank = ''rerank''"
| "type_name type_excludeFromPrimary = ''excludeFromPrimary''"

record ModelCapability =
  cap_type :: ModelType
  isUserSelected :: "bool option"

record IProvider =
  p_id :: string
  platform :: string
  p_name :: string
  p_baseUrl :: string
  p_apiKey :: string
  model :: "string list"
  capabilities :: "ModelCapability list option"
  contextLimit :: "nat option"

text \<open>
  The regular expressions of the two tables use literals, \<open>.\<close>, \<open>.*\<close>, a character class
  with \<open>+\<close>, \<open>^\<close>, sequence, alternation and an optional group. All carry the flag \<open>i\<close>,
  so characters are compared after lowering. \<open>rmatch w r s\<close> lists what can remain of \<open>s\<close>
  after \<open>r\<close> has matched a prefix of it (\<open>w\<close> is the whole input, for \<open>^\<close>), and \<open>test\<close>
  looks for a match starting anywhere, as \<open>RegExp.test\<close> does.
\<close>

datatype rx =
    Lit string
  | AnyChar
  | AnyStar
  | OneOrMore "char list"
  | Bol
  | Seq rx rx
  | Alt rx rx
  | Opt rx

definition lower_char :: "char \<Rightarrow> char" where
  "lower_char c =
     (let n = (of_char c :: nat) in if 65 \<le> n \<and> n \<le> 90 then char_of (n + 32) else c)"

definition toLowerCase :: "string \<Rightarrow> string" where
  "toLowerCase s = map lower_char s"

fun starts_with :: "string \<Rightarrow> string \<Rightarrow> bool" where
  "starts_with [] s = True"
| "starts_with (c # cs) [] = False"
| "starts_with (c # cs) (d # ds) = (lower_char c = lower_char d \<and> starts_with cs ds)"

definition is_line_terminator :: "char \<Rightarrow> bool" where
  "is_line_terminator c = (c = CHR 0x0A \<or> c = CHR 0x0D)"

fun any_star :: "string \<Rightarrow> string list" where
  "any_star [] = [[]]"
| "any_star (c # cs) = (c # cs) # (if is_line_terminator c then [] else any_star cs)"

fun class_run :: "char list \<Rightarrow> string \<Rightarrow> string list" where
  "class_run cls [] = []"
| "class_run cls (c # cs) =
     (if lower_char c \<in> set (map lower_char cls) then cs # class_run cls cs else [])"

fun rmatch :: "string \<Rightarrow> rx \<Rightarrow> string \<Rightarrow> string list" where
  "rmatch w (Lit l) s = (if starts_with l s then [drop (length l) s] else [])"
| "rmatch w AnyChar s =
     (case s of [] \<Rightarrow> [] | c # cs \<Rightarrow> if is_line_terminator c then [] else [cs])"
| "rmatch w AnyStar s = any_star s"
| "rmatch w (OneOrMore cls) s = class_run cls s"
| "rmatch w Bol s = (if length s = length w then [s] else [])"
| "rmatch w (Seq a b) s = concat (map (rmatch w b) (rmatch w a s))"
| "rmatch w (Alt a b) s = rmatch w a s @ rmatch w b s"
| "rmatch w (Opt a) s = rmatch w a s @ [s]"

fun search_from :: "string \<Rightarrow> rx \<Rightarrow> string \<Rightarrow> bool" where
  "search_from w r [] = (rmatch w r [] \<noteq> [])"
| "search_from w r (c # cs) = (rmatch w r (c # cs) \<noteq> [] \<or> search_from w r cs)"

definition test :: "rx \<Rightarrow> string \<Rightarrow> bool" where
  "test r w = search_from w r w"

text \<open>
  The tables \<open>CAPABILITY_PATTERNS\<close>, \<open>CAPABILITY_EXCLUSIONS\<close> and
  \<open>PROVIDER_CAPABILITY_RULES\<close>. In the source text of the exclusions the class is written
  \<open>[\\w-]\<close>, which in a regular expression literal is the class of the backslash, \<open>w\<close> and
  \<open>-\<close>, and \<open>\\.\<close> is a backslash followed by any character.
\<close>

fun alternatives :: "rx \<Rightarrow> rx list \<Rightarrow> rx" where
  "alternatives r [] = r"
| "alternatives r (x # xs) = Alt r (alternatives x xs)"

definition CAPABILITY_PATTERNS :: "ModelType \<Rightarrow> rx" where
  "CAPABILITY_PATTERNS ty =
     (case ty of
        type_text \<Rightarrow>
          alternatives (Lit ''gpt'')
            [Lit ''claude'', Lit ''gemini'', Lit ''qwen'', Lit ''llama'', Lit ''mistral'',
             Lit ''deepseek'']
      | type_vision \<Rightarrow>
          alternatives (Lit ''4o'')
            [Lit ''claude-3'',
             Seq (Lit ''gemini-'') (Seq AnyStar (Lit ''-pro'')),
             Seq (Lit ''gemini-'') (Seq AnyStar (Lit ''-flash'')),
             Lit ''gemini-2.0'', Lit ''qwen-vl'', Lit ''llava'', Lit ''vision'']
      | type_function_calling \<Rightarrow>
          alternatives (Lit ''gpt-4'')
            [Lit ''claude-3'', Lit ''gemini'', Lit ''qwen'', Lit ''deepseek'']
      | type_web_search \<Rightarrow> alternatives (Lit ''search'') [Lit ''perplexity'']
      | type_reasoning \<Rightarrow> alternatives (Lit ''o1-'') [Lit ''reasoning'', Lit ''think'']
      | type_embedding \<Rightarrow>
          alternatives (Seq Bol (Lit ''text-''))
            [Lit ''embed'', Lit ''bge-'', Lit ''e5-'', Lit ''LLM2Vec'', Lit ''retrieval'',
             Lit ''uae-'', Lit ''gte-'', Lit ''jina-clip'', Lit ''jina-embeddings'',
             Lit ''voyage-'']
      | type_rerank \<Rightarrow>
          alternatives (Lit ''rerank'')
            [Lit ''re-rank'', Lit ''re-ranker'', Lit ''re-ranking'', Lit ''retrieval'',
             Lit ''retriever'']
      | type_excludeFromPrimary \<Rightarrow>
          alternatives (Lit ''dall-e'')
            [Lit ''flux'', Lit ''stable-diffusion'', Lit ''midjourney'', Lit ''flash-image'',
             Lit ''embed'', Lit ''rerank''])"

definition backslash_w_dash :: "char list" where
  "backslash_w_dash = [CHR 0x5C, CHR ''w'', CHR ''-'']"

definition CAPABILITY_EXCLUSIONS :: "ModelType \<Rightarrow> rx list" where
  "CAPABILITY_EXCLUSIONS ty =
     (case ty of
        type_vision \<Rightarrow>
          [alternatives (Lit ''embed'')
             [Lit ''rerank'', Lit ''dall-e'', Lit ''flux'', Lit ''stable-diffusion'']]
      | type_function_calling \<Rightarrow>
          [Seq (Lit ''aqa'') (Opt (Seq (Lit ''-'') (OneOrMore backslash_w_dash))),
           Seq (Lit ''imagen'') (Opt (Seq (Lit ''-'') (OneOrMore backslash_w_dash))),
           Lit ''o1-mini'',
           Lit ''o1-preview'',
           Seq (Lit ''gemini-1'')
             (Opt (Seq (Lit [CHR 0x5C]) (Seq AnyChar (OneOrMore backslash_w_dash)))),
           Lit ''dall-e'',
           Lit ''embed'',
           Lit ''rerank'']
      | _ \<Rightarrow> [])"

definition anthropic_rules :: "ModelType \<Rightarrow> bool option" where
  "anthropic_rules ty =
     (case ty of
        type_text \<Rightarrow> Some True
      | type_vision \<Rightarrow> Some True
      | type_function_calling \<Rightarrow> Some True
      | type_web_search \<Rightarrow> Some False
      | type_reasoning \<Rightarrow> Some False
      | type_embedding \<Rightarrow> Some False
      | type_rerank \<Rightarrow> Some False
      | type_excludeFromPrimary \<Rightarrow> Some False)"

definition deepseek_rules :: "ModelType \<Rightarrow> bool option" where
  "deepseek_rules ty =
     (case ty of
        type_text \<Rightarrow> Some True
      | type_vision \<Rightarrow> None
      | type_function_calling \<Rightarrow> Some True
      | type_web_search \<Rightarrow> Some False
      | type_reasoning \<Rightarrow> None
      | type_embedding \<Rightarrow> Some False
      | type_rerank \<Rightarrow> Some False
      | type_excludeFromPrimary \<Rightarrow> Some False)"

definition PROVIDER_CAPABILITY_RULES :: "string \<Rightarrow> (ModelType \<Rightarrow> bool option) option" where
  "PROVIDER_CAPABILITY_RULES key =
     (if key = ''anthropic'' then Some anthropic_rules
      else if key = ''deepseek'' then Some deepseek_rules
      else None)"

text \<open>
  \<open>getBaseModelName\<close>: lower case, every character outside \<open>[a-z0-9./-]\<close> becomes \<open>-\<close>, runs
  of \<open>-\<close> collapse to one, and one \<open>-\<close> is removed at the start and at the end.
\<close>

definition replace_disallowed :: "string \<Rightarrow> string" where
  "replace_disallowed s =
     map (\<lambda>c. let n = (of_char c :: nat)
              in if (97 \<le> n \<and> n \<le> 122) \<or> (48 \<le> n \<and> n \<le> 57) \<or>
                    c = CHR ''.'' \<or> c = CHR ''/'' \<or> c = CHR ''-''
                 then c else CHR ''-'') s"

fun collapse_dashes :: "string \<Rightarrow> string" where
  "collapse_dashes [] = []"
| "collapse_dashes [c] = [c]"
| "collapse_dashes (c # d # cs) =
     (if c = CHR ''-'' \<and> d = CHR ''-'' then collapse_dashes (d # cs)
      else c # collapse_dashes (d # cs))"

definition strip_leading_dash :: "string \<Rightarrow> string" where
  "strip_leading_dash s = (case s of [] \<Rightarrow> [] | c # cs \<Rightarrow> if c = CHR ''-'' then cs else s)"

definition strip_trailing_dash :: "string \<Rightarrow> string" where
  "strip_trailing_dash s = (if s \<noteq> [] \<and> last s = CHR ''-'' then butlast s else s)"

definition getBaseModelName :: "string \<Rightarrow> string" where
  "getBaseModelName modelName =
     strip_trailing_dash (strip_leading_dash (collapse_dashes (replace_disallowed (toLowerCase modelName))))"

text \<open>The three tiers. \<open>undefined\<close> and \<open>null\<close> are \<open>None\<close>.\<close>

definition getUserSelectedCapability :: "IProvider \<Rightarrow> ModelType \<Rightarrow> bool option" where
  "getUserSelectedCapability m ty =
     (case capabilities m of
        None \<Rightarrow> None
      | Some caps \<Rightarrow>
          (case find (\<lambda>cap. cap_type cap = ty) caps of
             None \<Rightarrow> None
           | Some capability \<Rightarrow> isUserSelected capability))"

definition getProviderCapabilityRule :: "string \<Rightarrow> ModelType \<Rightarrow> bool option" where
  "getProviderCapabilityRule provider ty =
     (case PROVIDER_CAPABILITY_RULES (toLowerCase provider) of
        None \<Rightarrow> None
      | Some rules \<Rightarrow> rules ty)"

text \<open>The callback of \<open>modelNames.some\<close>: the exclusions first, then the pattern.\<close>

definition model_supports :: "ModelType \<Rightarrow> string \<Rightarrow> bool" where
  "model_supports ty modelName =
     (let baseModelName = getBaseModelName modelName;
          isExcluded = list_ex (\<lambda>excludePattern. test excludePattern baseModelName)
                         (CAPABILITY_EXCLUSIONS ty)
      in if isExcluded then False else test (CAPABILITY_PATTERNS ty) baseModelName)"

text \<open>
  The resolution \<open>hasModelCapability\<close> computes between its cache lookup and its cache
  store: the user's choice, then the rule of the provider, then the patterns over the
  model names.
\<close>

definition resolveCapability :: "IProvider \<Rightarrow> ModelType \<Rightarrow> bool option" where
  "resolveCapability m ty =
     (case getUserSelectedCapability m ty of
        Some userSelected \<Rightarrow> Some userSelected
      | None \<Rightarrow>
          (case getProviderCapabilityRule (platform m) ty of
             Some providerRule \<Rightarrow> Some providerRule
           | None \<Rightarrow>
               (if list_ex (model_supports ty) (model m) then Some True else None)))"



text \<open>
  \<open>JSON.stringify\<close> of the capability list, with the properties of each object in the
  order of the type's declaration and a missing \<open>isUserSelected\<close> left out.
\<close>

definition json_quoted :: "string \<Rightarrow> string" where
  "json_quoted s = CHR 0x22 # s @ [CHR 0x22]"

definition json_capability :: "ModelCapability \<Rightarrow> string" where
  "json_capability cap =
     ''{'' @ json_quoted ''type'' @ '':'' @ json_quoted (type_name (cap_type cap)) @
     (case isUserSelected cap of
        None \<Rightarrow> []
      | Some b \<Rightarrow> '','' @ json_quoted ''isUserSelected'' @ '':'' @ (if b then ''true'' else ''false'')) @
     ''}''"

fun join_commas :: "string list \<Rightarrow> string" where
  "join_commas [] = []"
| "join_commas [x] = x"
| "join_commas (x # y # ys) = x @ '','' @ join_commas (y # ys)"

definition JSON_stringify :: "ModelCapability list \<Rightarrow> string" where
  "JSON_stringify caps = ''['' @ join_commas (map json_capability caps) @ '']''"

text \<open>
  The cache key and \<open>hasModelCapability\<close>. The module's cache, a \<open>Map\<close> from keys to
  \<open>boolean | undefined\<close>, is passed in and returned.
\<close>

definition capabilitiesHash :: "IProvider \<Rightarrow> string" where
  "capabilitiesHash m = (case capabilities m of None \<Rightarrow> [] | Some caps \<Rightarrow> JSON_stringify caps)"

definition cacheKey :: "IProvider \<Rightarrow> ModelType \<Rightarrow> string" where
  "cacheKey m ty = p_id m @ ''-'' @ platform m @ ''-'' @ type_name ty @ ''-'' @ capabilitiesHash m"

type_synonym capability_cache = "string \<rightharpoonup> bool option"

definition hasModelCapability ::
  "capability_cache \<Rightarrow> IProvider \<Rightarrow> ModelType \<Rightarrow> bool option \<times> capability_cache" where
  "hasModelCapability cache m ty =
     (case cache (cacheKey m ty) of
        Some cached \<Rightarrow> (cached, cache)
      | None \<Rightarrow>
          (let result = resolveCapability m ty
           in (result, cache(cacheKey m ty \<mapsto> result))))"

definition clearModelCapabilitiesCache :: "capability_cache \<Rightarrow> capability_cache" where
  "clearModelCapabilitiesCache cache = Map.empty"

text \<open>
  A provider before and after its model list is edited in the settings: same id, same
  platform, no capability tags.
\<close>

definition provider_before :: IProvider where
  "provider_before =
     \<lparr>p_id = ''p1'', platform = ''custom'', p_name = ''My provider'',
      p_baseUrl = ''https://api.example.test/v1'', p_apiKey = ''k'',
      model = [''gpt-4o''], capabilities = None, contextLimit = None\<rparr>"

definition provider_after :: IProvider where
  "provider_after = provider_before\<lparr>model := [''text-embedding-3-small'']\<rparr>"

section \<open>Properties\<close>

subsection \<open>Confirmation outcome vocabulary\<close>

text \<open>
  C7. The outcomes that \<open>useConfirmationButtons\<close> offers for the confirmation details of a
  tool call depend only on the category of the details: for edit, exec and info they are
  ProceedOnce, ProceedAlways and Cancel, and for mcp they are ProceedOnce,
  ProceedAlwaysTool, ProceedAlwaysServer and Cancel; neither the translation function nor
  the other fields of the details matter.
\<close>

theorem confirmation_outcomes_by_category:
  "(details_type_of d \<in> {edit, exec, info} \<longrightarrow>
      option_values (useConfirmationButtons (Some d) t) =
        Some [ProceedOnce, ProceedAlways, Cancel] \<and>
      map_option set (option_values (useConfirmationButtons (Some d) t)) =
        Some {ProceedOnce, ProceedAlways, Cancel}) \<and>
   (details_type_of d = mcp \<longrightarrow>
      option_values (useConfirmationButtons (Some d) t) =
        Some [ProceedOnce, ProceedAlwaysTool, ProceedAlwaysServer, Cancel] \<and>
      map_option set (option_values (useConfirmationButtons (Some d) t)) =
        Some {ProceedOnce, ProceedAlwaysTool, ProceedAlwaysServer, Cancel}) \<and>
   (details_type_of d = details_type_of d' \<longrightarrow>
      option_values (useConfirmationButtons (Some d) t) =
      option_values (useConfirmationButtons (Some d') t'))"
  by (cases d; cases d') (simp_all add: option_values_def useConfirmationButtons_def)

theorem confirmation_outcomes_by_category_witness:
  "option_values
     (useConfirmationButtons (Some (McpDetails ''run'' ''search'' ''docs'' ''Search''))
        (\<lambda>k args. k)) =
     Some [ProceedOnce, ProceedAlwaysTool, ProceedAlwaysServer, Cancel] \<and>
   option_values
     (useConfirmationButtons (Some (ExecDetails ''shell'' ''ls'')) (\<lambda>k args. k)) =
     Some [ProceedOnce, ProceedAlways, Cancel] \<and>
   option_values
     (useConfirmationButtons (Some (ExecDetails ''shell'' ''ls'')) (\<lambda>k args. k)) =
   option_values
     (useConfirmationButtons (Some (ExecDetails ''other'' ''rm -r x'')) (\<lambda>k args. []))"
  using
    confirmation_outcomes_by_category
      [of "McpDetails ''run'' ''search'' ''docs'' ''Search''" "\<lambda>k args. k"
          "McpDetails ''run'' ''search'' ''docs'' ''Search''" "\<lambda>k args. k"]
    confirmation_outcomes_by_category
      [of "ExecDetails ''shell'' ''ls''" "\<lambda>k args. k"
          "ExecDetails ''other'' ''rm -r x''" "\<lambda>k args. []"]
  by (simp add: option_values_def useConfirmationButtons_def)

subsection \<open>Conversation tool configuration\<close>

lemma registerCustomTools_keeps:
  "excludeTools (fst (registerCustomTools env c)) = excludeTools c \<and>
   useAionuiWebFetch (fst (registerCustomTools env c)) = useAionuiWebFetch c \<and>
   useGeminiWebSearch (fst (registerCustomTools env c)) = useGeminiWebSearch c"
  by (simp add: registerCustomTools_def Let_def split: option.split)

lemma later_results_stable:
  "map exclusions_and_flags (later_getConfig_results ops w) =
     replicate (length (later_getConfig_results ops w))
       (exclusions_and_flags (getConfig (conv_config w)))"
proof (induction ops w rule: later_getConfig_results.induct)
  case (4 env ops w)
  then show ?case
    using registerCustomTools_keeps [of env "conv_config w"]
    by (simp add: exclusions_and_flags_def getConfig_def)
qed (simp_all add: exclusions_and_flags_def getConfig_def)

text \<open>
  C8. After \<open>initializeForConversation authType\<close> on a newly constructed configuration the
  override fetch tool is active and \<open>web_fetch\<close> is excluded, whatever the platform and
  the preference; the web search tool is active exactly when the preference is google
  and the platform is \<open>USE_OPENAI\<close>, and exactly then \<open>google_web_search\<close> is excluded.
\<close>

theorem initializeForConversation_decisions:
  "cfg_useAionuiWebFetch (getConfig (bootstrap_config opts authType)) = True \<and>
   ''web_fetch'' \<in> set (cfg_excludeTools (getConfig (bootstrap_config opts authType))) \<and>
   cfg_useGeminiWebSearch (getConfig (bootstrap_config opts authType)) =
     (opt_webSearchEngine opts = Some engine_google \<and> authType = USE_OPENAI) \<and>
   (''google_web_search'' \<in> set (cfg_excludeTools (getConfig (bootstrap_config opts authType)))) =
     (opt_webSearchEngine opts = Some engine_google \<and> authType = USE_OPENAI) \<and>
   cfg_excludeTools (getConfig (bootstrap_config opts authType)) =
     (if opt_webSearchEngine opts = Some engine_google \<and> authType = USE_OPENAI
      then [''web_fetch'', ''google_web_search''] else [''web_fetch''])"
  by (cases "opt_webSearchEngine opts")
     (auto simp add: bootstrap_config_def initializeForConversation_def
        new_ConversationToolConfig_def getConfig_def Let_def)

text \<open>
  C9. Once the configuration of a conversation has been resolved at bootstrap, every
  later \<open>getConfig\<close> call returns the exclusion list and the two activation flags of the
  bootstrap, whatever edits of the global preference and whatever registrations of the
  custom tools happen in between.
\<close>

theorem getConfig_stable_after_bootstrap:
  "map exclusions_and_flags
     (later_getConfig_results ops
        \<lparr>global_webSearchEngine = g, conv_config = bootstrap_config opts authType\<rparr>) =
   replicate
     (length (filter (\<lambda>op. op = GetConfig) ops))
     (exclusions_and_flags (getConfig (bootstrap_config opts authType)))"
proof -
  have len: "length (later_getConfig_results ops w) = length (filter (\<lambda>op. op = GetConfig) ops)"
    for w
    by (induction ops w rule: later_getConfig_results.induct) simp_all
  show ?thesis
    using later_results_stable
      [of ops "\<lparr>global_webSearchEngine = g, conv_config = bootstrap_config opts authType\<rparr>"]
    by (simp add: len)
qed

subsection \<open>MCP server projection\<close>

lemma last_where_Some: "last_where P xs = Some y \<Longrightarrow> y \<in> set xs \<and> P y"
  by (induction xs) (auto split: option.splits if_splits)

lemma last_where_None: "last_where P xs = None \<longleftrightarrow> (\<forall>x\<in>set xs. \<not> P x)"
  by (induction xs) (auto split: option.splits if_splits)

lemma last_where_filter: "last_where P (filter Q xs) = last_where (\<lambda>x. Q x \<and> P x) xs"
  by (induction xs) (auto split: option.splits)

lemma last_where_distinct:
  "distinct (map f xs) \<Longrightarrow> s \<in> set xs \<Longrightarrow> P s \<Longrightarrow> last_where (\<lambda>x. P x \<and> f x = f s) xs = Some s"
proof (induction xs)
  case Nil
  then show ?case by simp
next
  case (Cons x xs)
  show ?case
  proof (cases "s = x")
    case True
    have "f s \<notin> f ` set xs" using Cons.prems(1) True by simp
    then have "\<forall>y\<in>set xs. \<not> (P y \<and> f y = f s)" by (metis imageI)
    then have "last_where (\<lambda>x. P x \<and> f x = f s) xs = None" by (simp add: last_where_None)
    then show ?thesis using True Cons.prems by simp
  next
    case False
    then show ?thesis using Cons by simp
  qed
qed

lemma fold_add_server:
  "fold add_server xs m n =
     (case last_where (\<lambda>s. is_stdio (transport s) \<and> server_name s = n \<and> n \<noteq> proto_key) xs of
        None \<Rightarrow> m n
      | Some s \<Rightarrow> Some (launch_config s))"
proof (induction xs arbitrary: m)
  case Nil
  then show ?case by simp
next
  case (Cons x xs)
  have "fold add_server (x # xs) m n = fold add_server xs (add_server x m) n"
    by simp
  also have "\<dots> =
     (case last_where (\<lambda>s. is_stdio (transport s) \<and> server_name s = n \<and> n \<noteq> proto_key) xs of
        None \<Rightarrow> add_server x m n
      | Some s \<Rightarrow> Some (launch_config s))"
    by (rule Cons.IH)
  also have "\<dots> =
     (case last_where (\<lambda>s. is_stdio (transport s) \<and> server_name s = n \<and> n \<noteq> proto_key)
             (x # xs) of
        None \<Rightarrow> m n
      | Some s \<Rightarrow> Some (launch_config s))"
    by (cases "transport x")
       (auto simp: add_server_def assign_property_def split: option.split)
  finally show ?case .
qed

lemma getMcpServers_lookup:
  "getMcpServers (ServerArray xs) n =
     map_option launch_config
       (last_where (\<lambda>s. projectable s \<and> server_name s = n \<and> n \<noteq> proto_key) xs)"
proof -
  have "(\<lambda>x. (enabled x \<and> status x = Some connected) \<and>
             is_stdio (transport x) \<and> server_name x = n \<and> n \<noteq> proto_key)
        = (\<lambda>s. projectable s \<and> server_name s = n \<and> n \<noteq> proto_key)"
    by (auto simp: projectable_def)
  then show ?thesis
    by (simp add: getMcpServers_def fold_add_server last_where_filter split: option.split)
qed

lemma getMcpServers_lookup_ordinary:
  assumes "n \<noteq> proto_key"
  shows "getMcpServers (ServerArray xs) n =
     map_option launch_config (last_where (\<lambda>s. projectable s \<and> server_name s = n) xs)"
  using assms by (simp add: getMcpServers_lookup)

lemma getMcpServers_no_own_proto: "getMcpServers (ServerArray xs) proto_key = None"
proof -
  have "last_where (\<lambda>s. projectable s \<and> server_name s = proto_key \<and> proto_key \<noteq> proto_key) xs
        = None"
    by (simp add: last_where_None)
  then show ?thesis by (simp add: getMcpServers_lookup)
qed

text \<open>
  C3, as amended. For every stored server list and every name other than \<open>__proto__\<close>, the
  map handed to the bootstrap has an entry under that name exactly when a server of that
  name is enabled, connected and on the stdio transport, and the entry is the command,
  arguments, environment and description of the last such server in the list. Every
  entry of the map comes from a server that is enabled, connected and on the stdio
  transport. With pairwise different names, each server of the list has its own entry
  when it qualifies and none when it does not.
\<close>

theorem getMcpServers_projection:
  "(\<forall>n. n \<noteq> proto_key \<longrightarrow>
      getMcpServers (ServerArray xs) n =
        map_option launch_config (last_where (\<lambda>s. projectable s \<and> server_name s = n) xs)) \<and>
   (\<forall>n. n \<noteq> proto_key \<longrightarrow>
      (n \<in> dom (getMcpServers (ServerArray xs))) =
        (n \<in> server_name ` {s \<in> set xs. projectable s})) \<and>
   (\<forall>n c. getMcpServers (ServerArray xs) n = Some c \<longrightarrow>
      (\<exists>s\<in>set xs. projectable s \<and> server_name s = n \<and> c = launch_config s)) \<and>
   (distinct (map server_name xs) \<longrightarrow>
      (\<forall>s\<in>set xs. server_name s \<noteq> proto_key \<longrightarrow>
         getMcpServers (ServerArray xs) (server_name s) =
           (if projectable s then Some (launch_config s) else None)))"
proof (intro conjI allI impI ballI)
  fix n
  assume "n \<noteq> proto_key"
  then show "getMcpServers (ServerArray xs) n =
      map_option launch_config (last_where (\<lambda>s. projectable s \<and> server_name s = n) xs)"
    by (rule getMcpServers_lookup_ordinary)
next
  fix n
  assume n: "n \<noteq> proto_key"
  show "(n \<in> dom (getMcpServers (ServerArray xs))) =
        (n \<in> server_name ` {s \<in> set xs. projectable s})"
  proof (cases "last_where (\<lambda>s. projectable s \<and> server_name s = n) xs")
    case None
    then have absent: "getMcpServers (ServerArray xs) n = None"
      by (simp add: getMcpServers_lookup_ordinary [OF n])
    from None have "\<forall>x\<in>set xs. \<not> (projectable x \<and> server_name x = n)"
      by (simp add: last_where_None)
    then have "n \<notin> server_name ` {s \<in> set xs. projectable s}"
      by auto
    with absent show ?thesis by (simp add: domIff)
  next
    case (Some s)
    then have present: "getMcpServers (ServerArray xs) n = Some (launch_config s)"
      by (simp add: getMcpServers_lookup_ordinary [OF n])
    from last_where_Some [OF Some]
    have "n \<in> server_name ` {s \<in> set xs. projectable s}"
      by auto
    with present show ?thesis by (simp add: domIff)
  qed
next
  fix n c
  assume "getMcpServers (ServerArray xs) n = Some c"
  then obtain s
    where s: "last_where (\<lambda>s. projectable s \<and> server_name s = n \<and> n \<noteq> proto_key) xs = Some s"
      and c: "c = launch_config s"
    by (auto simp: getMcpServers_lookup)
  from last_where_Some [OF s] c
  show "\<exists>s\<in>set xs. projectable s \<and> server_name s = n \<and> c = launch_config s"
    by auto
next
  fix s
  assume d: "distinct (map server_name xs)" and s: "s \<in> set xs"
    and n: "server_name s \<noteq> proto_key"
  show "getMcpServers (ServerArray xs) (server_name s) =
         (if projectable s then Some (launch_config s) else None)"
  proof (cases "projectable s")
    case True
    then show ?thesis
      using last_where_distinct [OF d s, of projectable]
      by (simp add: getMcpServers_lookup_ordinary [OF n])
  next
    case False
    have "\<forall>x\<in>set xs. \<not> (projectable x \<and> server_name x = server_name s)"
    proof
      fix x assume x: "x \<in> set xs"
      show "\<not> (projectable x \<and> server_name x = server_name s)"
      proof
        assume h: "projectable x \<and> server_name x = server_name s"
        with d x s have "x = s" by (meson distinct_map inj_onD)
        with h False show False by simp
      qed
    qed
    then have "last_where (\<lambda>x. projectable x \<and> server_name x = server_name s) xs = None"
      by (simp add: last_where_None)
    with False show ?thesis by (simp add: getMcpServers_lookup_ordinary [OF n])
  qed
qed

theorem getMcpServers_projection_witness:
  "getMcpServers (ServerArray three_servers) ''local'' =
     Some \<lparr>ui_command = ''npx'', ui_args = [''-y'', ''srv''], ui_env = [], ui_description = None\<rparr> \<and>
   getMcpServers (ServerArray three_servers) ''remote'' = None \<and>
   getMcpServers (ServerArray three_servers) ''off'' = None"
  using getMcpServers_projection [of three_servers, THEN conjunct2, THEN conjunct2, THEN conjunct2]
  by (simp add: three_servers_def example_server_def projectable_def proto_key_def)

text \<open>
  The claim as stated fails: of two qualifying servers of one name, the first has no
  entry of its own; the entry under the name holds the command of the second.
\<close>

theorem same_name_counterexample:
  "first_of_name \<in> set same_name_servers \<and>
   projectable first_of_name \<and>
   getMcpServers (ServerArray same_name_servers) (server_name first_of_name) \<noteq>
     Some (launch_config first_of_name) \<and>
   getMcpServers (ServerArray same_name_servers) ''tools'' =
     Some \<lparr>ui_command = ''second-command'', ui_args = [], ui_env = [], ui_description = None\<rparr>"
  by (simp add: same_name_servers_def first_of_name_def second_of_name_def example_server_def
        projectable_def getMcpServers_def add_server_def assign_property_def proto_key_def)

subsection \<open>The Gemini agent manager\<close>

lemma happens_before_index:
  "happens_before P Q xs \<longleftrightarrow> (\<forall>i<length xs. Q (xs ! i) \<longrightarrow> (\<exists>j<i. P (xs ! j)))"
proof (induction xs)
  case Nil
  then show ?case by (simp add: happens_before_def)
next
  case (Cons x xs)
  show ?case
  proof (cases "P x")
    case True
    then show ?thesis
      apply (auto simp: happens_before_def)
      subgoal for i by (cases i) auto
      done
  next
    case False
    have "(\<forall>i<length (x # xs). Q ((x # xs) ! i) \<longrightarrow> (\<exists>j<i. P ((x # xs) ! j))) \<longleftrightarrow>
          (\<not> Q x \<and> (\<forall>i<length xs. Q (xs ! i) \<longrightarrow> (\<exists>j<i. P (xs ! j))))"
      (is "?L \<longleftrightarrow> ?R")
    proof
      assume L: ?L
      have "\<not> Q x" using L[rule_format, of 0] by auto
      moreover have "\<forall>i<length xs. Q (xs ! i) \<longrightarrow> (\<exists>j<i. P (xs ! j))"
      proof (intro allI impI)
        fix i assume i: "i < length xs" "Q (xs ! i)"
        with L[rule_format, of "Suc i"] obtain j where j: "j < Suc i" "P ((x # xs) ! j)" by auto
        with False obtain k where "j = Suc k" by (cases j) auto
        with j show "\<exists>j<i. P (xs ! j)" by auto
      qed
      ultimately show ?R by simp
    next
      assume R: ?R
      show ?L
      proof (intro allI impI)
        fix i assume i: "i < length (x # xs)" "Q ((x # xs) ! i)"
        with R obtain k where k: "i = Suc k" by (cases i) auto
        with i R obtain j where "j < k" "P (xs ! j)" by auto
        then have "Suc j < i" "P ((x # xs) ! Suc j)" using k by auto
        then show "\<exists>j<i. P ((x # xs) ! j)" by blast
      qed
    qed
    with Cons.IH False show ?thesis by (simp add: happens_before_def)
  qed
qed

text \<open>
  C1. In every call of \<open>sendMessage\<close> the user message (id \<open>msg_id\<close>, type text,
  position right, stamped with the conversation id, holding the input) is persisted and
  the status is set to pending before the call awaits the bootstrap, and the await comes
  before the input is forwarded to the subprocess; so the message is persisted strictly
  before the subprocess can have the input a reply would refer to. The input is
  forwarded exactly when the bootstrap succeeded.
\<close>

theorem sendMessage_persists_before_forwarding:
  "AddMessage (conversation_id m) (user_message m d) \<in> set (sendMessage m b d) \<and>
   SetStatus pending \<in> set (sendMessage m b d) \<and>
   happens_before (\<lambda>s. s = AddMessage (conversation_id m) (user_message m d))
     (\<lambda>s. s = AwaitBootstrap \<or> is_forward s) (sendMessage m b d) \<and>
   happens_before (\<lambda>s. s = SetStatus pending)
     (\<lambda>s. s = AwaitBootstrap \<or> is_forward s) (sendMessage m b d) \<and>
   happens_before (\<lambda>s. s = AwaitBootstrap) is_forward (sendMessage m b d) \<and>
   persisted (takeWhile (\<lambda>s. s \<noteq> AwaitBootstrap) (sendMessage m b d)) =
     [AddMessage (conversation_id m) (user_message m d)] \<and>
   mgr_status (run_steps (takeWhile (\<lambda>s. s \<noteq> AwaitBootstrap) (sendMessage m b d)) m) =
     Some pending \<and>
   message_id (user_message m d) = msg_id d \<and>
   message_type (user_message m d) = ''text'' \<and>
   position (user_message m d) = ''right'' \<and>
   message_conversation_id (user_message m d) = conversation_id m \<and>
   message_content (user_message m d) = input d \<and>
   filter is_forward (sendMessage m b d) = (if b = Fulfilled then [SuperSendMessage d] else [])"
  by (cases b)
     (simp_all add: sendMessage_def happens_before_def persisted_def run_steps_def user_message_def)

text \<open>
  C2. When the bootstrap promise rejects, \<open>sendMessage\<close> emits exactly one event: it has
  type error and the message id of the call. The callback of \<open>nextTickToLocalFinish\<close>
  runs after the emit, the returned promise rejects (once) after that callback, nothing
  is forwarded to the subprocess, and no persistence step and no bridge event of the
  listener comes after the synchronisation point. Unless the preview handler consumes
  the event, the listener passes it on, stamped, and persists what the transform gives.
\<close>

theorem bootstrap_failure_order:
  "filter is_emit (sendMessage m (Rejected e) d) = [Emit ''gemini.message'' (error_event e d)] \<and>
   event_type (error_event e d) = ''error'' \<and>
   event_msg_id (error_event e d) = msg_id d \<and>
   filter is_reject (sendMessage m (Rejected e) d) = [Reject e] \<and>
   filter is_forward (sendMessage m (Rejected e) d) = [] \<and>
   happens_before is_emit (\<lambda>s. s = NextTickToLocalFinish) (sendMessage m (Rejected e) d) \<and>
   happens_before (\<lambda>s. s = NextTickToLocalFinish) is_reject (sendMessage m (Rejected e) d) \<and>
   filter is_emit (sendMessage_with_listener g t m (Rejected e) d) =
     [Emit ''gemini.message'' (error_event e d)] \<and>
   filter is_reject (sendMessage_with_listener g t m (Rejected e) d) = [Reject e] \<and>
   happens_before (\<lambda>s. s = NextTickToLocalFinish) is_reject
     (sendMessage_with_listener g t m (Rejected e) d) \<and>
   persisted (dropWhile (\<lambda>s. s \<noteq> NextTickToLocalFinish)
     (sendMessage_with_listener g t m (Rejected e) d)) = [] \<and>
   forwarded (dropWhile (\<lambda>s. s \<noteq> NextTickToLocalFinish)
     (sendMessage_with_listener g t m (Rejected e) d)) = [] \<and>
   (\<not> g (error_event e d) \<longrightarrow>
      forwarded (sendMessage_with_listener g t m (Rejected e) d) = [stamped m (error_event e d)] \<and>
      persisted (sendMessage_with_listener g t m (Rejected e) d) =
        AddMessage (conversation_id m) (user_message m d) #
        (case t (stamped m (error_event e d)) of
           None \<Rightarrow> []
         | Some tm \<Rightarrow> [AddOrUpdateMessage (conversation_id m) tm ''gemini'']))"
  by (simp add: sendMessage_def sendMessage_with_listener_def happens_before_def persisted_def
        on_gemini_message_def error_event_def stamped_def skipTransformTypes_def Let_def
      split: option.split)

theorem bootstrap_failure_order_witness:
  "forwarded (sendMessage_with_listener never_preview text_transform example_manager
     (Rejected example_error) example_send) =
     [\<lparr>event_type = ''error'', event_data = ''login required'', event_msg_id = ''m1'',
       event_conversation_id = Some ''conv-1''\<rparr>] \<and>
   filter is_reject (sendMessage_with_listener never_preview text_transform example_manager
     (Rejected example_error) example_send) = [Reject example_error]"
  using bootstrap_failure_order
    [of example_manager example_error example_send never_preview text_transform]
  by (simp add: never_preview_def stamped_def error_event_def error_text_def
        example_manager_def example_error_def example_send_def)

lemma on_gemini_message_unfolded:
  "on_gemini_message g t m ev =
     (if event_type ev = ''finish'' then [SetStatus finished] else []) @
     (if event_type ev = ''start'' then [SetStatus running] else []) @
     (if g ev then []
      else (if event_type ev \<notin> set skipTransformTypes
            then (case t (stamped m ev) of
                    None \<Rightarrow> []
                  | Some tm \<Rightarrow> [AddOrUpdateMessage (conversation_id m) tm ''gemini''])
            else []) @
           [ResponseStreamEmit (stamped m ev)])"
  by (simp add: on_gemini_message_def Let_def stamped_def)

lemma stamped_conversation_id: "event_conversation_id (stamped m ev) = Some (conversation_id m)"
  by (simp add: stamped_def)

lemma handler_consumed:
  "g ev \<Longrightarrow> forwarded (on_gemini_message g t m ev) = [] \<and> persisted (on_gemini_message g t m ev) = []"
  by (simp add: on_gemini_message_unfolded persisted_def)

lemma handler_forwarded:
  "\<not> g ev \<Longrightarrow> forwarded (on_gemini_message g t m ev) = [stamped m ev]"
  by (cases "t (stamped m ev)") (simp_all add: on_gemini_message_unfolded)

lemma handler_transient:
  "\<not> g ev \<Longrightarrow> event_type ev \<in> set skipTransformTypes \<Longrightarrow>
   persisted (on_gemini_message g t m ev) = []"
  by (simp add: on_gemini_message_unfolded persisted_def)

lemma handler_persistable:
  "\<not> g ev \<Longrightarrow> event_type ev \<notin> set skipTransformTypes \<Longrightarrow>
   persisted (on_gemini_message g t m ev) =
     (case t (stamped m ev) of
        None \<Rightarrow> []
      | Some tm \<Rightarrow> [AddOrUpdateMessage (conversation_id m) tm ''gemini''])"
  by (cases "t (stamped m ev)") (simp_all add: on_gemini_message_unfolded persisted_def)

text \<open>
  C4, as amended. An event of type start sets the status to running and an event of type
  finish sets it to finished, whatever the status was before; an event of another type
  leaves the status as it was; \<open>sendMessage\<close> sets it to pending.
\<close>

theorem on_gemini_message_status:
  "mgr_status (run_steps (on_gemini_message g t m ev) m) =
     (if event_type ev = ''start'' then Some running
      else if event_type ev = ''finish'' then Some finished
      else mgr_status m) \<and>
   mgr_status (run_steps (sendMessage m b d) m) = Some pending"
  by (cases b)
     (simp_all add: on_gemini_message_def sendMessage_def run_steps_def Let_def
        split: option.split)

text \<open>
  The claim as stated fails: a finish event takes a pending conversation to finished,
  which is no transition of the specification's machine.
\<close>

theorem status_machine_counterexample:
  "mgr_status example_manager = Some pending \<and>
   mgr_status (run_steps
     (on_gemini_message never_preview text_transform example_manager (example_event ''finish''))
     example_manager) = Some finished \<and>
   \<not> spec_transition (Some pending) (Some finished)"
  by (simp add: on_gemini_message_def run_steps_def example_manager_def example_event_def
        never_preview_def text_transform_def skipTransformTypes_def Let_def)

text \<open>
  C5, as amended. An event the preview handler consumes is neither persisted nor given to
  the bridge. Every other event is given to the bridge, stamped; if its type is thought
  or finished nothing is persisted, and otherwise the transform is applied to the stamped
  event and its message, when there is one, is upserted.
\<close>

theorem on_gemini_message_persist_forward:
  "(\<not> g ev \<longrightarrow> forwarded (on_gemini_message g t m ev) = [stamped m ev]) \<and>
   (\<not> g ev \<and> event_type ev \<in> set skipTransformTypes \<longrightarrow>
      persisted (on_gemini_message g t m ev) = []) \<and>
   (\<not> g ev \<and> event_type ev \<notin> set skipTransformTypes \<longrightarrow>
      persisted (on_gemini_message g t m ev) =
        (case t (stamped m ev) of
           None \<Rightarrow> []
         | Some tm \<Rightarrow> [AddOrUpdateMessage (conversation_id m) tm ''gemini''])) \<and>
   (g ev \<longrightarrow>
      forwarded (on_gemini_message g t m ev) = [] \<and>
      persisted (on_gemini_message g t m ev) = [])"
  using handler_consumed [of g ev t m] handler_forwarded [of g ev t m]
    handler_transient [of g ev t m] handler_persistable [of g ev t m]
  by blast

theorem on_gemini_message_persist_forward_witness:
  "forwarded (on_gemini_message never_preview text_transform example_manager
     (example_event ''thought'')) = [stamped example_manager (example_event ''thought'')] \<and>
   persisted (on_gemini_message never_preview text_transform example_manager
     (example_event ''thought'')) = [] \<and>
   persisted (on_gemini_message never_preview text_transform example_manager
     (example_event ''content'')) =
     [AddOrUpdateMessage ''conv-1''
        \<lparr>message_id = ''m1'', message_type = ''text'', position = ''left'',
         message_conversation_id = ''conv-1'', message_content = ''payload''\<rparr> ''gemini'']"
  using
    on_gemini_message_persist_forward
      [of never_preview "example_event ''thought''" text_transform example_manager]
    on_gemini_message_persist_forward
      [of never_preview "example_event ''content''" text_transform example_manager]
  by (simp add: never_preview_def skipTransformTypes_def example_event_def text_transform_def
        stamped_def example_manager_def)

text \<open>
  The claim as stated fails: an event of type \<open>preview_open\<close> is of neither transient
  type and the transform gives a message for it, yet nothing is persisted and nothing is
  given to the bridge.
\<close>

theorem transient_claim_counterexample:
  "event_type (example_event ''preview_open'') \<notin> {''thought'', ''finished''} \<and>
   text_transform (stamped example_manager (example_event ''preview_open'')) \<noteq> None \<and>
   persisted (on_gemini_message preview_open_only text_transform example_manager
     (example_event ''preview_open'')) = [] \<and>
   forwarded (on_gemini_message preview_open_only text_transform example_manager
     (example_event ''preview_open'')) = []"
  by (simp add: on_gemini_message_def persisted_def stamped_def example_event_def
        example_manager_def preview_open_only_def text_transform_def skipTransformTypes_def)

text \<open>
  C6. Every event the listener gives to the bridge carries the conversation id of the
  manager, whatever id the raw event had; every message it persists is stored under the
  manager's id and is the transform of the event so stamped, hence carries that id
  whenever the transform copies the id of its event.
\<close>

theorem on_gemini_message_stamps:
  "(\<forall>ev' \<in> set (forwarded (on_gemini_message g t m ev)).
      event_conversation_id ev' = Some (conversation_id m) \<and> ev' = stamped m ev) \<and>
   (\<forall>s \<in> set (persisted (on_gemini_message g t m ev)).
      \<exists>tm. s = AddOrUpdateMessage (conversation_id m) tm ''gemini'' \<and>
           t (stamped m ev) = Some tm \<and>
           (copies_conversation_id t \<longrightarrow> message_conversation_id tm = conversation_id m))"
proof (cases "g ev")
  case True
  then show ?thesis using handler_consumed [of g ev t m] by simp
next
  case False
  have fw: "forwarded (on_gemini_message g t m ev) = [stamped m ev]"
    using False by (rule handler_forwarded)
  show ?thesis
  proof (cases "event_type ev \<in> set skipTransformTypes")
    case True
    then show ?thesis
      using fw handler_transient [of g ev t m] False True
      by (simp add: stamped_conversation_id)
  next
    case notskip: False
    show ?thesis
    proof (cases "t (stamped m ev)")
      case None
      then show ?thesis
        using fw handler_persistable [of g ev t m] False notskip
        by (simp add: stamped_conversation_id)
    next
      case (Some tm)
      have "copies_conversation_id t \<longrightarrow> message_conversation_id tm = conversation_id m"
        using Some stamped_conversation_id [of m ev]
        by (auto simp add: copies_conversation_id_def)
      then show ?thesis
        using Some fw handler_persistable [of g ev t m] False notskip
        by (simp add: stamped_conversation_id)
    qed
  qed
qed

theorem on_gemini_message_stamps_witness:
  "forwarded (on_gemini_message never_preview text_transform example_manager
     (example_event ''content'')) =
     [\<lparr>event_type = ''content'', event_data = ''payload'', event_msg_id = ''m1'',
       event_conversation_id = Some ''conv-1''\<rparr>] \<and>
   event_conversation_id (example_event ''content'') = Some ''conv-other''"
  using on_gemini_message_stamps
    [of never_preview text_transform example_manager "example_event ''content''"]
    handler_forwarded [of never_preview "example_event ''content''" text_transform example_manager]
  by (simp add: never_preview_def stamped_def example_event_def example_manager_def)

subsection \<open>Model capabilities\<close>

lemma hasModelCapability_miss:
  "cache (cacheKey m ty) = None \<Longrightarrow>
   hasModelCapability cache m ty =
     (resolveCapability m ty, cache(cacheKey m ty \<mapsto> resolveCapability m ty))"
  by (simp add: hasModelCapability_def Let_def)

lemma hasModelCapability_hit:
  "cache (cacheKey m ty) = Some r \<Longrightarrow> hasModelCapability cache m ty = (r, cache)"
  by (simp add: hasModelCapability_def Let_def)

lemma hasModelCapability_twice:
  "fst (hasModelCapability (snd (hasModelCapability cache m ty)) m ty) =
   fst (hasModelCapability cache m ty)"
  by (cases "cache (cacheKey m ty)") (simp_all add: hasModelCapability_def Let_def)

lemma hasModelCapability_after_clear:
  "fst (hasModelCapability (clearModelCapabilitiesCache cache) m ty) = resolveCapability m ty"
  by (simp add: hasModelCapability_def clearModelCapabilitiesCache_def Let_def)

lemma resolve_before: "resolveCapability provider_before type_vision = Some True"
  by code_simp

lemma resolve_after: "resolveCapability provider_after type_vision = None"
  by code_simp

lemma same_key: "cacheKey provider_after type_vision = cacheKey provider_before type_vision"
  by (simp add: cacheKey_def provider_after_def capabilitiesHash_def)

text \<open>
  C10. \<open>hasModelCapability\<close> is to return what the uncached resolution computes. On a
  cache miss it does, and a second call with the same provider repeats the first. But the
  key leaves out the model names that the third tier reads: after a call for a provider
  whose only model is \<open>gpt-4o\<close>, a call for the same provider with its model list
  changed to \<open>text-embedding-3-small\<close> finds the old entry and answers \<open>true\<close> for
  vision, where the resolution gives \<open>undefined\<close>.
\<close>

theorem stale_capability_cache:
  "resolveCapability provider_after type_vision = None \<and>
   fst (hasModelCapability
          (snd (hasModelCapability Map.empty provider_before type_vision))
          provider_after type_vision) = Some True"
proof -
  have first: "snd (hasModelCapability Map.empty provider_before type_vision) =
      [cacheKey provider_before type_vision \<mapsto> Some True]"
    by (simp add: hasModelCapability_miss resolve_before)
  have "hasModelCapability [cacheKey provider_before type_vision \<mapsto> Some True]
          provider_after type_vision =
        (Some True, [cacheKey provider_before type_vision \<mapsto> Some True])"
    by (rule hasModelCapability_hit) (simp add: same_key)
  with first resolve_after show ?thesis by simp
qed

end
